theory Spec2Isabelle
  imports Main "HOL-Library.Sublist"
begin

section \<open>The todo list component (src/client/components/TodoList.tsx)\<close>

subsection \<open>Data\<close>

text \<open>
  A todo has two statuses, the string literals \<^verbatim>\<open>'completed'\<close> and \<^verbatim>\<open>'pending'\<close>.
  The type \<^verbatim>\<open>Tab = 'completed' | 'pending' | 'all'\<close> is the union of the two statuses
  with the extra literal \<^verbatim>\<open>'all'\<close>; the narrowing \<^verbatim>\<open>type === 'all' ? ... : [type]\<close> of
  the source is the case distinction on this union.
\<close>

datatype status = Completed | Pending

datatype Tab = Tab_status status | Tab_all

fun status_string :: "status \<Rightarrow> string" where
  "status_string Completed = ''completed''"
| "status_string Pending = ''pending''"

fun Tab_string :: "Tab \<Rightarrow> string" where
  "Tab_string (Tab_status s) = status_string s"
| "Tab_string Tab_all = ''all''"

text \<open>
  A todo as the query returns it. Identifiers are the integer keys of the backend; the
  field \<^verbatim>\<open>id\<close> is written \<open>id_todo\<close>.
\<close>

record todo =
  id_todo :: int
  body :: string
  status :: status

text \<open>The object \<^verbatim>\<open>{ ...todo, completed: todo.status === 'completed' }\<close> given to an item.\<close>

record formatted_todo = todo +
  completed :: bool

definition formatTodo :: "todo \<Rightarrow> formatted_todo" where
  "formatTodo t =
     \<lparr>id_todo = id_todo t, body = body t, status = status t,
      completed = (status t = Completed)\<rparr>"

subsection \<open>Effects\<close>

text \<open>
  A handler is modelled by the trace of the effectful calls it makes, in the order of the
  source: the three state setters, the two remote mutations and the refetch of the
  \<^verbatim>\<open>getAll\<close> query.
\<close>

datatype event =
    SetActiveTab Tab
  | SetListStatus "status list"
  | SetIsChecked bool
  | TodoStatusUpdate int status
  | TodoDelete int
  | RefetchGetAll

text \<open>Whether the remote call of a mutation succeeds is decided by the environment.\<close>

datatype outcome = Succeeded | Failed

text \<open>
  The contract of the RPC client's \<^verbatim>\<open>useMutation({ onSuccess })\<close>: \<^verbatim>\<open>mutate\<close> issues the
  remote call, and the \<^verbatim>\<open>onSuccess\<close> callback runs once the call has succeeded. No
  \<^verbatim>\<open>onError\<close> or \<^verbatim>\<open>onSettled\<close> callback is given in this file.
\<close>

definition useMutation :: "event list \<Rightarrow> event \<Rightarrow> outcome \<Rightarrow> event list" where
  "useMutation onSuccess call r = call # (if r = Succeeded then onSuccess else [])"

definition is_remote :: "event \<Rightarrow> bool" where
  "is_remote e =
     (case e of TodoStatusUpdate i s \<Rightarrow> True | TodoDelete i \<Rightarrow> True
      | RefetchGetAll \<Rightarrow> True | _ \<Rightarrow> False)"

subsection \<open>The state of the list component\<close>

record TodoList_state =
  activeTab :: Tab
  listStatus :: "status list"

definition initial_state :: TodoList_state where
  "initial_state = \<lparr>activeTab = Tab_all, listStatus = [Completed, Pending]\<rparr>"

text \<open>What a setter call does to the state seen by the next render.\<close>

fun setState :: "event \<Rightarrow> TodoList_state \<Rightarrow> TodoList_state" where
  "setState (SetActiveTab t) s = s\<lparr>activeTab := t\<rparr>"
| "setState (SetListStatus l) s = s\<lparr>listStatus := l\<rparr>"
| "setState _ s = s"

definition after :: "TodoList_state \<Rightarrow> event list \<Rightarrow> TodoList_state" where
  "after s es = fold setState es s"

fun setItemState :: "event \<Rightarrow> bool \<Rightarrow> bool" where
  "setItemState (SetIsChecked b) c = b"
| "setItemState _ c = c"

definition item_after :: "bool \<Rightarrow> event list \<Rightarrow> bool" where
  "item_after c es = fold setItemState es c"

subsection \<open>The handlers of the list component\<close>

text \<open>\<^verbatim>\<open>data: todos = []\<close>: the list is empty while the query has no data.\<close>

definition todos_of :: "todo list option \<Rightarrow> todo list" where
  "todos_of data = (case data of None \<Rightarrow> [] | Some ts \<Rightarrow> ts)"

definition updateStatus :: "outcome \<Rightarrow> int \<Rightarrow> status \<Rightarrow> event list" where
  "updateStatus r todoId status' = useMutation [RefetchGetAll] (TodoStatusUpdate todoId status') r"

definition handleUpdateStatus :: "outcome \<Rightarrow> int \<Rightarrow> status \<Rightarrow> event list" where
  "handleUpdateStatus r i status' = updateStatus r i status'"

definition currentStatus :: "todo list \<Rightarrow> int \<Rightarrow> status" where
  "currentStatus todos i =
     (case find (\<lambda>todo. id_todo todo = i) todos of
        None \<Rightarrow> Pending
      | Some todo \<Rightarrow> status todo)"

definition handleToggleTodoStatus :: "outcome \<Rightarrow> todo list \<Rightarrow> int \<Rightarrow> event list" where
  "handleToggleTodoStatus r todos i =
     handleUpdateStatus r i (if currentStatus todos i = Pending then Completed else Pending)"

definition deleteTodo :: "outcome \<Rightarrow> int \<Rightarrow> event list" where
  "deleteTodo r i = useMutation [RefetchGetAll] (TodoDelete i) r"

definition handleDeleteTodo :: "outcome \<Rightarrow> int \<Rightarrow> event list" where
  "handleDeleteTodo r i = deleteTodo r i"

definition handleClickTab :: "Tab \<Rightarrow> event list" where
  "handleClickTab type =
     [SetActiveTab type,
      SetListStatus (case type of Tab_all \<Rightarrow> [Completed, Pending] | Tab_status s \<Rightarrow> [s])]"

subsection \<open>Rendering\<close>

definition tabs :: "Tab list" where
  "tabs = [Tab_all, Tab_status Completed, Tab_status Pending]"

text \<open>
  One \<^verbatim>\<open>Tabs.Trigger\<close> per element of \<^verbatim>\<open>tabs\<close>, in the order of the array.
  \<^verbatim>\<open>activeTab.includes(type)\<close> is the substring test of strings.
\<close>

record trigger =
  tab_value :: Tab
  isActive :: bool
  label :: string
  onClick :: "event list"

definition TabsDemo :: "Tab list \<Rightarrow> Tab \<Rightarrow> trigger list" where
  "TabsDemo tabs' activeTab' =
     map (\<lambda>type.
            \<lparr>tab_value = type,
             isActive = sublist (Tab_string type) (Tab_string activeTab'),
             label = Tab_string type,
             onClick = handleClickTab type\<rparr>) tabs'"

text \<open>
  What a render of the list component produces: the input of the \<^verbatim>\<open>getAll\<close> query,
  the tab triggers, and one item per fetched todo.
\<close>

record view =
  query_statuses :: "status list"
  tab_triggers :: "trigger list"
  todo_items :: "formatted_todo list"

definition TodoList :: "TodoList_state \<Rightarrow> todo list option \<Rightarrow> view" where
  "TodoList s data =
     \<lparr>query_statuses = listStatus s,
      tab_triggers = TabsDemo tabs (activeTab s),
      todo_items = map formatTodo (todos_of data)\<rparr>"

subsection \<open>The item component\<close>

text \<open>\<^verbatim>\<open>useState(todo.completed)\<close>: the checked state starts from the fetched status.\<close>

definition TodoItem_initial :: "formatted_todo \<Rightarrow> bool" where
  "TodoItem_initial t = completed t"

definition handleCheckboxClick :: "outcome \<Rightarrow> todo list \<Rightarrow> formatted_todo \<Rightarrow> bool \<Rightarrow> event list" where
  "handleCheckboxClick r todos t isChecked =
     SetIsChecked (\<not> isChecked) # handleToggleTodoStatus r todos (id_todo t)"

record item_view =
  checked :: bool
  dark_background :: bool
  line_through :: bool
  item_label :: string

definition TodoItem :: "formatted_todo \<Rightarrow> bool \<Rightarrow> item_view" where
  "TodoItem t isChecked =
     \<lparr>checked = isChecked, dark_background = isChecked, line_through = isChecked,
      item_label = body t\<rparr>"

subsection \<open>The backend query\<close>

text \<open>
  Modelled from the spec: the \<^verbatim>\<open>getAll\<close> procedure of the backend
  (src/server/api/routers/todo-router.ts) is not among the sources. The spec says of it
  that the component fetches "a list filtered by status": of the stored todos, the
  answer holds those whose status is one of the requested statuses, in stored order.
\<close>

definition getAll :: "todo list \<Rightarrow> status list \<Rightarrow> todo list" where
  "getAll db statuses = filter (\<lambda>t. status t \<in> set statuses) db"

subsection \<open>Derived notions\<close>

text \<open>The state of the next render after a click on a tab.\<close>

definition click :: "Tab \<Rightarrow> TodoList_state \<Rightarrow> TodoList_state" where
  "click type s = after s (handleClickTab type)"

text \<open>The relation between the two pieces of filter state.\<close>

definition filter_inv :: "TodoList_state \<Rightarrow> bool" where
  "filter_inv s \<longleftrightarrow>
     listStatus s \<noteq> [] \<and> set (listStatus s) \<subseteq> {Completed, Pending} \<and>
     (listStatus s = [Completed, Pending] \<longleftrightarrow> activeTab s = Tab_all) \<and>
     (case activeTab s of Tab_all \<Rightarrow> True | Tab_status x \<Rightarrow> listStatus s = [x])"

text \<open>
  The status expression of \<open>handleToggleTodoStatus\<close>,
  \<^verbatim>\<open>currentStatus === 'pending' ? 'completed' : 'pending'\<close>, as a function of the
  current status.
\<close>

definition toggled :: "status \<Rightarrow> status" where
  "toggled s = (if s = Pending then Completed else Pending)"

text \<open>Two todos for concrete instances.\<close>

definition todo_milk :: todo where
  "todo_milk = \<lparr>id_todo = 1, body = ''milk'', status = Pending\<rparr>"

definition todo_eggs :: todo where
  "todo_eggs = \<lparr>id_todo = 2, body = ''eggs'', status = Completed\<rparr>"

section \<open>Properties\<close>

subsection \<open>Auxiliary facts\<close>

lemma useMutation_refetch:
  "useMutation [RefetchGetAll] call r = call # (if r = Succeeded then [RefetchGetAll] else [])"
  by (simp add: useMutation_def)

lemma find_id_present:
  "i \<in> id_todo ` set todos \<Longrightarrow>
   \<exists>t. find (\<lambda>todo. id_todo todo = i) todos = Some t \<and> t \<in> set todos \<and> id_todo t = i"
  by (induction todos) auto

lemma find_id_absent:
  "i \<notin> id_todo ` set todos \<Longrightarrow> find (\<lambda>todo. id_todo todo = i) todos = None"
  by (induction todos) auto

lemma find_id_unique:
  "distinct (map id_todo todos) \<Longrightarrow> t \<in> set todos \<Longrightarrow>
   find (\<lambda>todo. id_todo todo = id_todo t) todos = Some t"
  by (induction todos) (auto simp: rev_image_eqI)

lemma handleToggleTodoStatus_trace:
  "handleToggleTodoStatus r todos i =
     TodoStatusUpdate i (if currentStatus todos i = Pending then Completed else Pending)
       # (if r = Succeeded then [RefetchGetAll] else [])"
  by (simp add: handleToggleTodoStatus_def handleUpdateStatus_def updateStatus_def
      useMutation_refetch)

lemma Tab_cases3: "a = Tab_all \<or> a = Tab_status Completed \<or> a = Tab_status Pending"
proof (cases a)
  case (Tab_status x)
  then show ?thesis by (cases x) simp_all
qed simp

text \<open>
  None of the three tab names is a substring of another, so a trigger is highlighted
  exactly when its tab is the active one.
\<close>

lemma isActive_iff: "sublist (Tab_string a) (Tab_string b) \<longleftrightarrow> a = b"
  using Tab_cases3 [of a] Tab_cases3 [of b]
  by (auto simp: sublist_Cons_right)

lemma TabsDemo_isActive:
  "g \<in> set (TabsDemo ts a) \<Longrightarrow> isActive g \<longleftrightarrow> tab_value g = a"
  by (auto simp: TabsDemo_def isActive_iff)

lemma filter_inv_click: "filter_inv (click type s)"
  using Tab_cases3 [of type]
  by (auto simp: filter_inv_def click_def after_def handleClickTab_def)

lemma filter_inv_initial: "filter_inv initial_state"
  by (simp add: filter_inv_def initial_state_def)

lemma filter_inv_clicks: "filter_inv s \<Longrightarrow> filter_inv (fold click types s)"
  by (induction types arbitrary: s) (simp_all add: filter_inv_click)

lemma status_cases2: "s = Completed \<or> s = Pending"
  by (cases s) simp_all

lemma getAll_both: "getAll db [Completed, Pending] = db"
  using status_cases2 by (simp add: getAll_def)

lemma getAll_single: "getAll db [x] = filter (\<lambda>t. status t = x) db"
  by (simp add: getAll_def)

lemma inj_formatTodo: "inj formatTodo"
  by (rule injI) (simp add: formatTodo_def todo.equality)

subsection \<open>Toggling a status\<close>

text \<open>
  C1. For every id that occurs in the fetched list, \<open>handleToggleTodoStatus\<close> issues the
  update-status call for that id with the opposite of the status of the todo that the
  lookup finds: \<open>Completed\<close> for a pending todo, \<open>Pending\<close> for a completed one. The
  refetch of \<^verbatim>\<open>getAll\<close> follows exactly when the call succeeds. The lookup takes the
  first todo with the id; where ids are distinct, that is the only one.
\<close>

theorem handleToggleTodoStatus_present:
  assumes "i \<in> id_todo ` set todos"
  shows "\<exists>t. find (\<lambda>todo. id_todo todo = i) todos = Some t \<and> t \<in> set todos \<and> id_todo t = i \<and>
           handleToggleTodoStatus r todos i =
             TodoStatusUpdate i (case status t of Pending \<Rightarrow> Completed | Completed \<Rightarrow> Pending)
               # (if r = Succeeded then [RefetchGetAll] else []) \<and>
           (distinct (map id_todo todos) \<longrightarrow> (\<forall>t' \<in> set todos. id_todo t' = i \<longrightarrow> t' = t))"
proof -
  from assms obtain t where t: "find (\<lambda>todo. id_todo todo = i) todos = Some t"
    "t \<in> set todos" "id_todo t = i"
    using find_id_present by blast
  have "currentStatus todos i = status t"
    using t(1) by (simp add: currentStatus_def)
  then have "handleToggleTodoStatus r todos i =
      TodoStatusUpdate i (case status t of Pending \<Rightarrow> Completed | Completed \<Rightarrow> Pending)
        # (if r = Succeeded then [RefetchGetAll] else [])"
    by (cases "status t") (simp_all add: handleToggleTodoStatus_trace)
  moreover have "t' = t"
    if "distinct (map id_todo todos)" "t' \<in> set todos" "id_todo t' = i" for t'
    using find_id_unique [OF that(1,2)] t(1) that(3) by simp
  ultimately show ?thesis using t by blast
qed

theorem handleToggleTodoStatus_present_witness:
  "2 \<in> id_todo ` set [todo_milk, todo_eggs] \<and>
   distinct (map id_todo [todo_milk, todo_eggs]) \<and>
   handleToggleTodoStatus Succeeded [todo_milk, todo_eggs] 2 =
     [TodoStatusUpdate 2 Pending, RefetchGetAll]"
  using handleToggleTodoStatus_present [of 2 "[todo_milk, todo_eggs]" Succeeded]
  by (simp add: todo_milk_def todo_eggs_def)

text \<open>
  C8. For every id that does not occur in the fetched list, the current status falls back
  to \<open>Pending\<close>, so \<open>handleToggleTodoStatus\<close> issues the update-status call for that id
  with status \<open>Completed\<close>.
\<close>

theorem handleToggleTodoStatus_absent:
  assumes "i \<notin> id_todo ` set todos"
  shows "currentStatus todos i = Pending \<and>
         handleToggleTodoStatus r todos i =
           TodoStatusUpdate i Completed # (if r = Succeeded then [RefetchGetAll] else [])"
proof -
  have "currentStatus todos i = Pending"
    using find_id_absent [OF assms] by (simp add: currentStatus_def)
  then show ?thesis by (simp add: handleToggleTodoStatus_trace)
qed

theorem handleToggleTodoStatus_absent_witness:
  "7 \<notin> id_todo ` set [todo_milk, todo_eggs] \<and>
   handleToggleTodoStatus Failed [todo_milk, todo_eggs] 7 = [TodoStatusUpdate 7 Completed]"
  using handleToggleTodoStatus_absent [of 7 "[todo_milk, todo_eggs]" Failed]
  by (simp add: todo_milk_def todo_eggs_def)

text \<open>
  C10. The status that \<open>handleToggleTodoStatus\<close> sends is \<open>toggled\<close> of the current
  status, and \<open>toggled\<close> is an involution on the two statuses.
\<close>

theorem toggled_involution:
  "handleToggleTodoStatus r todos i = handleUpdateStatus r i (toggled (currentStatus todos i)) \<and>
   toggled (toggled s) = s"
  by (cases s) (simp_all add: handleToggleTodoStatus_def toggled_def)

subsection \<open>Mutations and the refetch\<close>

text \<open>
  C3. Both mutations synchronise by refetch on success: the trace of each is the remote
  call, followed by the refetch of \<^verbatim>\<open>getAll\<close> when the call succeeded and by nothing
  when it failed. The handlers that use them set no state of the list component.
\<close>

theorem refetch_on_mutation:
  "updateStatus Succeeded i st = [TodoStatusUpdate i st, RefetchGetAll] \<and>
   updateStatus Failed i st = [TodoStatusUpdate i st] \<and>
   deleteTodo Succeeded j = [TodoDelete j, RefetchGetAll] \<and>
   deleteTodo Failed j = [TodoDelete j] \<and>
   after s (handleToggleTodoStatus r todos i) = s \<and>
   after s (handleDeleteTodo r j) = s"
  by (simp add: updateStatus_def deleteTodo_def useMutation_refetch after_def
      handleToggleTodoStatus_trace handleDeleteTodo_def)

text \<open>
  C4. For every todo id, \<open>handleDeleteTodo\<close> issues the delete call with exactly that id,
  and the \<^verbatim>\<open>getAll\<close> query is refetched when the call succeeds (and only then).
\<close>

theorem handleDeleteTodo_trace:
  "handleDeleteTodo Succeeded i = [TodoDelete i, RefetchGetAll] \<and>
   handleDeleteTodo Failed i = [TodoDelete i]"
  by (simp add: handleDeleteTodo_def deleteTodo_def useMutation_refetch)

subsection \<open>The filter tabs\<close>

text \<open>
  C2. For every tab, \<open>handleClickTab\<close> sets the active tab to it and sets the status
  filter, which is the input of the query at the next render, to both statuses for the
  tab \<^verbatim>\<open>'all'\<close> and to the one-element list of the tab otherwise. Its trace holds no
  remote call, and it does not touch the checked state of an item.
\<close>

theorem handleClickTab_effect:
  "activeTab (after s (handleClickTab type)) = type \<and>
   listStatus (after s (handleClickTab Tab_all)) = [Completed, Pending] \<and>
   listStatus (after s (handleClickTab (Tab_status x))) = [x] \<and>
   query_statuses (TodoList (after s (handleClickTab Tab_all)) data) = [Completed, Pending] \<and>
   query_statuses (TodoList (after s (handleClickTab (Tab_status x))) data) = [x] \<and>
   filter is_remote (handleClickTab type) = [] \<and>
   item_after c (handleClickTab type) = c"
  by (simp add: after_def handleClickTab_def TodoList_def is_remote_def item_after_def)

text \<open>
  C9. The filter invariant: the status filter is a non-empty list of statuses, it is
  \<open>[Completed, Pending]\<close> exactly when the active tab is \<^verbatim>\<open>'all'\<close>, and it is the
  one-element list of the active tab otherwise. It holds of the initial state, every
  click on a tab preserves it, and so it holds after every sequence of clicks.
\<close>

theorem filter_invariant:
  "filter_inv initial_state \<and>
   (filter_inv s \<longrightarrow> filter_inv (after s (handleClickTab type))) \<and>
   filter_inv (fold click types initial_state)"
  using filter_inv_initial filter_inv_click [of type s] filter_inv_clicks [OF filter_inv_initial]
  by (simp add: click_def)

theorem filter_invariant_witness:
  "filter_inv initial_state \<and>
   filter_inv (after initial_state (handleClickTab (Tab_status Pending))) \<and>
   after initial_state (handleClickTab (Tab_status Pending)) =
     \<lparr>activeTab = Tab_status Pending, listStatus = [Pending]\<rparr>"
  using filter_invariant [of initial_state "Tab_status Pending" "[]"]
  by (simp add: after_def handleClickTab_def initial_state_def)

text \<open>
  C6, as stated, fails on the order: the triggers are rendered in the order of the array
  \<^verbatim>\<open>tabs\<close>, which is all, completed, pending, and not all, pending, completed.
\<close>

theorem tabs_order_counterexample:
  "map tab_value (tab_triggers (TodoList initial_state None)) \<noteq>
     [Tab_all, Tab_status Pending, Tab_status Completed]"
  by (simp add: TodoList_def TabsDemo_def tabs_def)

text \<open>
  C6, amended. The tab filter offers exactly the three choices all, completed, pending,
  rendered in that order, and each choice selects which statuses to display. A click on a
  choice makes the next render ask for both statuses (all), only \<open>Completed\<close>
  (completed) or only \<open>Pending\<close> (pending); once the data is the backend's answer to
  that query, all shows every stored todo, completed shows only the completed todos and
  pending shows only the pending todos.
\<close>

theorem tabs_offered:
  "map tab_value (tab_triggers (TodoList s data)) =
     [Tab_all, Tab_status Completed, Tab_status Pending] \<and>
   map label (tab_triggers (TodoList s data)) = [''all'', ''completed'', ''pending''] \<and>
   map (\<lambda>g. set (query_statuses (TodoList (after s (onClick g)) data')))
       (tab_triggers (TodoList s data)) = [{Completed, Pending}, {Completed}, {Pending}] \<and>
   map (\<lambda>g. todo_items (TodoList (after s (onClick g))
               (Some (getAll db (query_statuses (TodoList (after s (onClick g)) data'))))))
       (tab_triggers (TodoList s data)) =
     [map formatTodo db,
      map formatTodo (filter (\<lambda>t. status t = Completed) db),
      map formatTodo (filter (\<lambda>t. status t = Pending) db)]"
  by (simp add: TodoList_def TabsDemo_def tabs_def after_def handleClickTab_def todos_of_def
      getAll_both getAll_single)

subsection \<open>The query\<close>

text \<open>
  C5. Every render invokes the \<^verbatim>\<open>getAll\<close> query with the current status filter as its
  \<^verbatim>\<open>statuses\<close> argument. Once the data is the backend's answer to that query, the
  items displayed are exactly the stored todos whose status is in the filter.
\<close>

theorem query_follows_filter:
  "query_statuses (TodoList s data) = listStatus s \<and>
   todo_items (TodoList s (Some (getAll db (query_statuses (TodoList s data))))) =
     map formatTodo (filter (\<lambda>t. status t \<in> set (listStatus s)) db) \<and>
   (formatTodo t \<in> set (todo_items (TodoList s (Some (getAll db (query_statuses (TodoList s data))))))
      \<longleftrightarrow> t \<in> set db \<and> status t \<in> set (listStatus s))"
  by (auto simp: TodoList_def todos_of_def getAll_def inj_image_mem_iff [OF inj_formatTodo])

subsection \<open>The checkbox\<close>

text \<open>
  C7. A click on the checkbox of an item first sets the local checked state to its
  negation and only then issues the update-status call. The checked state of the next
  render, which drives the checked mark and the line-through, is the negation whether
  the call succeeds or fails.
\<close>

theorem checkbox_optimistic:
  "handleCheckboxClick r todos t c =
     [SetIsChecked (\<not> c),
      TodoStatusUpdate (id_todo t)
        (if currentStatus todos (id_todo t) = Pending then Completed else Pending)]
     @ (if r = Succeeded then [RefetchGetAll] else []) \<and>
   item_after c (handleCheckboxClick r todos t c) = (\<not> c) \<and>
   checked (TodoItem t (item_after c (handleCheckboxClick r todos t c))) = (\<not> c) \<and>
   line_through (TodoItem t (item_after c (handleCheckboxClick r todos t c))) = (\<not> c)"
  by (simp add: handleCheckboxClick_def handleToggleTodoStatus_trace item_after_def TodoItem_def)

end
